theory Spec2Isabelle
  imports Complex_Main
begin

section \<open>The connection registry of \<open>websocket_manager.py\<close>\<close>

text \<open>
  A \<open>WebSocket\<close> object is used by the manager only as a hashable handle (set member and
  dictionary key), so it is modelled by its identity. Dictionary keys arriving in a decoded
  JSON message can be any hashable Python scalar; \<open>pykey\<close> is the key space of such a
  dictionary (\<open>True\<close> and \<open>1\<close> are the same key in Python, so booleans are folded into
  the integers when a key is built).
\<close>

type_synonym websocket = nat

datatype pykey = KNone | KInt int | KStr string

record connection_manager =
  active_connections :: "int \<rightharpoonup> websocket set"
  role_connections :: "string \<rightharpoonup> websocket set"
  channel_subscriptions :: "pykey \<rightharpoonup> websocket set"
  ws_to_user :: "websocket \<rightharpoonup> int"
  ws_to_role :: "websocket \<rightharpoonup> string"

text \<open>\<open>ConnectionManager.__init__\<close>: five empty dictionaries.\<close>

definition init_manager :: connection_manager where
  "init_manager =
     \<lparr> active_connections = Map.empty, role_connections = Map.empty,
       channel_subscriptions = Map.empty, ws_to_user = Map.empty, ws_to_role = Map.empty \<rparr>"

text \<open>
  The idiom \<open>if k not in d: d[k] = set()\<close> followed by \<open>d[k].add(ws)\<close>
  (lines 31--33, 36--38 and 155--157).
\<close>

definition add_to_index :: "('k \<rightharpoonup> websocket set) \<Rightarrow> 'k \<Rightarrow> websocket \<Rightarrow> ('k \<rightharpoonup> websocket set)" where
  "add_to_index d k ws = d(k \<mapsto> insert ws (case d k of None \<Rightarrow> {} | Some S \<Rightarrow> S))"

text \<open>
  The idiom \<open>if k in d: d[k].discard(ws); if not d[k]: del d[k]\<close>
  (lines 61--64, 67--70 and 162--165).
\<close>

definition discard_from_index :: "('k \<rightharpoonup> websocket set) \<Rightarrow> 'k \<Rightarrow> websocket \<Rightarrow> ('k \<rightharpoonup> websocket set)" where
  "discard_from_index d k ws =
     (case d k of
        None \<Rightarrow> d
      | Some S \<Rightarrow> (if S - {ws} = {} then d(k := None) else d(k \<mapsto> S - {ws})))"

text \<open>
  The registry part of \<open>ConnectionManager.connect\<close> (lines 30--42): the statements between
  \<open>websocket.accept()\<close> and the confirmation message.
\<close>

definition connect_indexes :: "connection_manager \<Rightarrow> websocket \<Rightarrow> int \<Rightarrow> string \<Rightarrow> connection_manager" where
  "connect_indexes m ws user_id role =
     m \<lparr> active_connections := add_to_index (active_connections m) user_id ws,
         role_connections := add_to_index (role_connections m) role ws,
         ws_to_user := (ws_to_user m)(ws \<mapsto> user_id),
         ws_to_role := (ws_to_role m)(ws \<mapsto> role) \<rparr>"

text \<open>
  \<open>ConnectionManager.disconnect\<close> (lines 55--80). The guards \<open>if user_id and ...\<close> and
  \<open>if role and ...\<close> test Python truthiness: they are false for \<open>None\<close>, and also for the
  user id \<open>0\<close> and for the empty role name. The loop over \<open>channel_subscriptions.items()\<close>
  discards the websocket from every subscriber set and deletes no key.
\<close>

definition disconnect :: "connection_manager \<Rightarrow> websocket \<Rightarrow> connection_manager" where
  "disconnect m ws =
     (let user_id = ws_to_user m ws;
          role = ws_to_role m ws;
          ac = (case user_id of
                  None \<Rightarrow> active_connections m
                | Some u \<Rightarrow> (if u \<noteq> 0 then discard_from_index (active_connections m) u ws
                            else active_connections m));
          rc = (case role of
                  None \<Rightarrow> role_connections m
                | Some r \<Rightarrow> (if r \<noteq> [] then discard_from_index (role_connections m) r ws
                            else role_connections m));
          cs = (\<lambda>channel. map_option (\<lambda>websockets. websockets - {ws}) (channel_subscriptions m channel))
      in m \<lparr> active_connections := ac, role_connections := rc, channel_subscriptions := cs,
             ws_to_user := (ws_to_user m)(ws := None),
             ws_to_role := (ws_to_role m)(ws := None) \<rparr>)"

text \<open>\<open>ConnectionManager.subscribe_to_channel\<close> (lines 153--158).\<close>

definition subscribe_to_channel :: "connection_manager \<Rightarrow> websocket \<Rightarrow> pykey \<Rightarrow> connection_manager" where
  "subscribe_to_channel m ws channel =
     m \<lparr> channel_subscriptions := add_to_index (channel_subscriptions m) channel ws \<rparr>"

text \<open>\<open>ConnectionManager.unsubscribe_from_channel\<close> (lines 160--166).\<close>

definition unsubscribe_from_channel :: "connection_manager \<Rightarrow> websocket \<Rightarrow> pykey \<Rightarrow> connection_manager" where
  "unsubscribe_from_channel m ws channel =
     m \<lparr> channel_subscriptions := discard_from_index (channel_subscriptions m) channel ws \<rparr>"

text \<open>Membership of a websocket in the three indexes, and in the registry as a whole.\<close>

definition in_index :: "('k \<rightharpoonup> websocket set) \<Rightarrow> websocket \<Rightarrow> bool" where
  "in_index d ws = (\<exists>k S. d k = Some S \<and> ws \<in> S)"

definition member_at :: "('k \<rightharpoonup> websocket set) \<Rightarrow> 'k \<Rightarrow> websocket \<Rightarrow> bool" where
  "member_at d k ws = (case d k of None \<Rightarrow> False | Some S \<Rightarrow> ws \<in> S)"

definition subscribed :: "connection_manager \<Rightarrow> websocket \<Rightarrow> pykey \<Rightarrow> bool" where
  "subscribed m ws channel = member_at (channel_subscriptions m) channel ws"

definition present :: "connection_manager \<Rightarrow> websocket \<Rightarrow> bool" where
  "present m ws =
     (in_index (active_connections m) ws \<or> in_index (role_connections m) ws \<or>
      in_index (channel_subscriptions m) ws \<or> ws_to_user m ws \<noteq> None \<or> ws_to_role m ws \<noteq> None)"

text \<open>
  Two conditions on a registry. \<open>well_indexed\<close>: every member of a by-user or by-role set
  is mapped to that set's key, and the key is truthy (a non-zero user id, a non-empty role
  name). \<open>no_empty_topic\<close>: no topic is mapped to the empty set.
\<close>

definition well_indexed :: "connection_manager \<Rightarrow> bool" where
  "well_indexed m \<longleftrightarrow>
     (\<forall>u x. member_at (active_connections m) u x \<longrightarrow> ws_to_user m x = Some u \<and> u \<noteq> 0) \<and>
     (\<forall>r x. member_at (role_connections m) r x \<longrightarrow> ws_to_role m x = Some r \<and> r \<noteq> [])"

definition no_empty_topic :: "connection_manager \<Rightarrow> bool" where
  "no_empty_topic m \<longleftrightarrow> (\<forall>channel. channel_subscriptions m channel \<noteq> Some {})"

section \<open>Sending\<close>

text \<open>
  Values of inbound messages are decoded JSON. Numbers are integers; fractional numbers are
  left out of the model.
\<close>

datatype json = JNull | JBool bool | JInt int | JStr string | JList "json list"
  | JObj "(string \<times> json) list"

text \<open>
  Values of outbound messages. Times are seconds since the epoch. Three library renderings
  are kept symbolic: \<open>PIso t\<close> is the string \<open>t.isoformat()\<close> of the time \<open>t\<close>,
  \<open>PHour h\<close> is the string \<open>strftime("%Y-%m-%d %H:00:00")\<close> of a time in the hour number
  \<open>h\<close>, and \<open>PFormat parts\<close> is the string an f-string evaluates to, its literal pieces
  and interpolated values in order. Floats are taken as real numbers.
\<close>

datatype fpart = Lit string | Interp json

text \<open>The dictionary \<open>get_connection_stats\<close> returns (lines 168--182).\<close>

record connection_stats =
  total_connections :: nat
  users_online :: nat
  connections_by_role :: "string \<rightharpoonup> nat"
  subscribers_by_channel :: "pykey \<rightharpoonup> nat"

datatype pyval = PNone | PInt int | PFloat real | PStr string | PIso int | PHour int
  | PFormat "fpart list" | PJson json | PStats connection_stats | PList "pyval list"
  | PDict "(string \<times> pyval) list"

type_synonym outmsg = "(string \<times> pyval) list"

datatype error = TypeError | AttributeError | NameError | StorageError | TransportError

text \<open>
  What the manager's coroutines act on besides the registry: the frames each websocket has
  been sent (oldest first), the websockets whose \<open>send_text\<close> raises (\<open>dead\<close>, the peer is
  gone), those whose \<open>accept\<close> raises, and the clock reading used for timestamps.
\<close>

record world =
  manager :: connection_manager
  outbox :: "websocket \<Rightarrow> outmsg list"
  dead :: "websocket set"
  refused :: "websocket set"
  now :: int

text \<open>\<open>ConnectionManager.send_personal_message\<close> (lines 82--88).\<close>

definition send_personal_message :: "'a world_scheme \<Rightarrow> outmsg \<Rightarrow> websocket \<Rightarrow> 'a world_scheme" where
  "send_personal_message w message ws =
     (if ws \<in> dead w then w \<lparr> manager := disconnect (manager w) ws \<rparr>
      else w \<lparr> outbox := (outbox w)(ws := outbox w ws @ [message]) \<rparr>)"

text \<open>
  The loop shared by \<open>send_to_user\<close>, \<open>send_to_role\<close>, \<open>send_to_channel\<close> and
  \<open>broadcast\<close>: try to send to every websocket of a snapshot, collect those whose send
  raised, then disconnect them one by one. Python does not fix the order in which a set is
  iterated; sends to different websockets touch different outboxes, and the disconnects
  are run here in increasing order of the handles (\<open>disconnect_commute\<close> below shows that
  the order does not matter). A Python set is finite; \<open>sorted_list_of_set\<close> lists the
  members of a finite set.
\<close>

definition disconnect_each :: "connection_manager \<Rightarrow> websocket list \<Rightarrow> connection_manager" where
  "disconnect_each m wss = fold (\<lambda>ws m'. disconnect m' ws) wss m"

definition send_each :: "'a world_scheme \<Rightarrow> websocket set \<Rightarrow> outmsg \<Rightarrow> 'a world_scheme" where
  "send_each w targets message =
     (let disconnected = targets \<inter> dead w
      in w \<lparr> outbox := (\<lambda>ws. if ws \<in> targets \<and> ws \<notin> dead w
                               then outbox w ws @ [message] else outbox w ws),
             manager := disconnect_each (manager w) (sorted_list_of_set disconnected) \<rparr>)"

text \<open>\<open>ConnectionManager.send_to_user\<close> (lines 90--103).\<close>

definition send_to_user :: "'a world_scheme \<Rightarrow> outmsg \<Rightarrow> int \<Rightarrow> 'a world_scheme" where
  "send_to_user w message user_id =
     (case active_connections (manager w) user_id of
        None \<Rightarrow> w
      | Some websockets \<Rightarrow> send_each w websockets message)"

text \<open>\<open>ConnectionManager.send_to_role\<close> (lines 105--118).\<close>

definition send_to_role :: "'a world_scheme \<Rightarrow> outmsg \<Rightarrow> string \<Rightarrow> 'a world_scheme" where
  "send_to_role w message role =
     (case role_connections (manager w) role of
        None \<Rightarrow> w
      | Some websockets \<Rightarrow> send_each w websockets message)"


text \<open>
  \<open>ConnectionManager.broadcast\<close> (lines 135--151): the targets are the union of the sets of
  the by-user index.
\<close>

definition all_websockets :: "connection_manager \<Rightarrow> websocket set" where
  "all_websockets m = \<Union> (ran (active_connections m))"

definition broadcast :: "'a world_scheme \<Rightarrow> outmsg \<Rightarrow> 'a world_scheme" where
  "broadcast w message = send_each w (all_websockets (manager w)) message"

text \<open>
  \<open>ConnectionManager.connect\<close> (lines 26--53). An exception of \<open>websocket.accept()\<close> is
  not caught: it leaves the registry untouched and reaches the caller.
\<close>

definition connection_status :: "int \<Rightarrow> int \<Rightarrow> string \<Rightarrow> outmsg" where
  "connection_status t user_id role =
     [(''type'', PStr ''connection_status''), (''status'', PStr ''connected''),
      (''timestamp'', PIso t), (''user_id'', PInt user_id), (''role'', PStr role)]"

definition connect :: "'a world_scheme \<Rightarrow> websocket \<Rightarrow> int \<Rightarrow> string \<Rightarrow> error + 'a world_scheme" where
  "connect w ws user_id role =
     (if ws \<in> refused w then Inl TransportError
      else Inr (send_personal_message
                  (w \<lparr> manager := connect_indexes (manager w) ws user_id role \<rparr>)
                  (connection_status (now w) user_id role) ws))"

section \<open>Event publishers\<close>




text \<open>
  The attributes of a \<open>models.Metric\<close> row that the module reads. \<open>sensor_id\<close> is a
  nullable foreign key; \<open>sensor_name\<close> stands for \<open>metric.sensor.name if metric.sensor
  else None\<close>.
\<close>

record metric =
  sensor_id :: "int option"
  metric_type :: string
  metric_value :: real
  ts :: int
  sensor_name :: "string option"






text \<open>A process that has just started: nobody is connected and every transport works.\<close>

definition init_world :: world where
  "init_world = \<lparr> manager = init_manager, outbox = (\<lambda>ws. []), dead = {}, refused = {}, now = 0 \<rparr>"

section \<open>The message dispatcher\<close>

subsection \<open>Decoded messages\<close>

text \<open>
  An inbound message is a Python dictionary with string keys, given by its items (distinct
  keys). \<open>dict_get\<close> is \<open>dict.get(key, default)\<close>.
\<close>

type_synonym message = "(string \<times> json) list"

definition dict_get :: "message \<Rightarrow> string \<Rightarrow> json \<Rightarrow> json" where
  "dict_get d k dflt = (case map_of d k of None \<Rightarrow> dflt | Some v \<Rightarrow> v)"

text \<open>
  \<open>for x in v\<close>: a list yields its elements, a string its characters, a dictionary its
  keys; any other value raises \<open>TypeError\<close>.
\<close>

fun py_iter :: "json \<Rightarrow> error + json list" where
  "py_iter (JList xs) = Inr xs"
| "py_iter (JStr s) = Inr (map (\<lambda>c. JStr [c]) s)"
| "py_iter (JObj d) = Inr (map (\<lambda>kv. JStr (fst kv)) d)"
| "py_iter JNull = Inl TypeError"
| "py_iter (JBool b) = Inl TypeError"
| "py_iter (JInt i) = Inl TypeError"

text \<open>
  Using a value as a dictionary key (\<open>channel in self.channel_subscriptions\<close>): lists and
  dictionaries are unhashable and raise \<open>TypeError\<close>.
\<close>

fun py_key :: "json \<Rightarrow> error + pykey" where
  "py_key JNull = Inr KNone"
| "py_key (JBool b) = Inr (KInt (if b then 1 else 0))"
| "py_key (JInt i) = Inr (KInt i)"
| "py_key (JStr s) = Inr (KStr s)"
| "py_key (JList xs) = Inl TypeError"
| "py_key (JObj d) = Inl TypeError"

text \<open>\<open>parameters.get(key, default)\<close> on a value that need not be a dictionary.\<close>

fun py_get :: "json \<Rightarrow> string \<Rightarrow> json \<Rightarrow> error + json" where
  "py_get (JObj d) k dflt = Inr (dict_get d k dflt)"
| "py_get JNull k dflt = Inl AttributeError"
| "py_get (JBool b) k dflt = Inl AttributeError"
| "py_get (JInt i) k dflt = Inl AttributeError"
| "py_get (JStr s) k dflt = Inl AttributeError"
| "py_get (JList xs) k dflt = Inl AttributeError"

text \<open>Truthiness of a value, as in \<open>if metric_type:\<close>.\<close>

fun truthy :: "json \<Rightarrow> bool" where
  "truthy JNull = False"
| "truthy (JBool b) = b"
| "truthy (JInt i) = (i \<noteq> 0)"
| "truthy (JStr s) = (s \<noteq> [])"
| "truthy (JList xs) = (xs \<noteq> [])"
| "truthy (JObj d) = (d \<noteq> [])"

subsection \<open>The storage collaborator\<close>

text \<open>
  The module \<open>models\<close> that \<open>websocket_manager.py\<close> imports and the SQLAlchemy session are
  not part of the sources. An alert is taken with the attributes the handlers read and
  write, its status ranging over the four values of \<open>AlertStatus\<close>. The session is taken
  as tables together with the faults it can raise: \<open>query_fault\<close> holds for the alert keys
  whose lookup raises, \<open>commit_fault\<close> when \<open>commit\<close> raises, \<open>metrics_fault\<close> when the
  metrics query raises. The three formatted read queries of lines 344--448 are taken as
  given results.
\<close>

datatype alert_status = ACTIVE | ACKNOWLEDGED | RESOLVED | DISMISSED

record alert =
  alert_pk :: int
  alert_id :: string
  status :: alert_status
  acknowledged_by_id :: "int option"
  acknowledged_at :: "int option"
  acknowledged_notes :: "json option"
  resolved_by_id :: "int option"
  resolved_at :: "int option"
  resolution :: "json option"
  resolution_notes :: "json option"

record alert_action =
  action_alert_id :: int
  action_user_id :: int
  action :: string
  action_notes :: pyval

record database =
  alerts :: "alert list"
  alert_actions :: "alert_action list"
  metrics :: "metric list"
  query_fault :: "json \<Rightarrow> bool"
  commit_fault :: bool
  metrics_fault :: bool
  sensor_data_rows :: "json \<Rightarrow> json \<Rightarrow> error + pyval list"
  alert_rows :: "json \<Rightarrow> json \<Rightarrow> error + pyval list"
  system_stat_rows :: "error + pyval \<times> pyval"

record service = world +
  db :: database

text \<open>
  What a coroutine leaves behind: the state when it returned or raised, and the exception
  if it raised.
\<close>

type_synonym outcome = "service \<times> error option"

text \<open>\<open>query(models.Alert).filter(models.Alert.alert_id == alert_id).first()\<close>.\<close>

definition find_alert :: "database \<Rightarrow> json \<Rightarrow> error + alert option" where
  "find_alert d key =
     (if query_fault d key then Inl StorageError
      else Inr (List.find (\<lambda>a. JStr (alert_id a) = key) (alerts d)))"

text \<open>Assigning to the attributes of the row that \<open>first()\<close> returned.\<close>

fun update_first :: "('a \<Rightarrow> bool) \<Rightarrow> ('a \<Rightarrow> 'a) \<Rightarrow> 'a list \<Rightarrow> 'a list" where
  "update_first P f [] = []"
| "update_first P f (x # xs) = (if P x then f x # xs else x # update_first P f xs)"

subsection \<open>Subscription handlers\<close>

text \<open>The loops of \<open>_handle_subscribe\<close> and \<open>_handle_unsubscribe\<close>.\<close>

fun subscribe_channels :: "connection_manager \<Rightarrow> websocket \<Rightarrow> json list \<Rightarrow> connection_manager \<times> error option" where
  "subscribe_channels m ws [] = (m, None)"
| "subscribe_channels m ws (channel # channels) =
     (case py_key channel of
        Inl e \<Rightarrow> (m, Some e)
      | Inr k \<Rightarrow> subscribe_channels (subscribe_to_channel m ws k) ws channels)"

fun unsubscribe_channels :: "connection_manager \<Rightarrow> websocket \<Rightarrow> json list \<Rightarrow> connection_manager \<times> error option" where
  "unsubscribe_channels m ws [] = (m, None)"
| "unsubscribe_channels m ws (channel # channels) =
     (case py_key channel of
        Inl e \<Rightarrow> (m, Some e)
      | Inr k \<Rightarrow> unsubscribe_channels (unsubscribe_from_channel m ws k) ws channels)"

text \<open>\<open>WebSocketService._handle_subscribe\<close> (lines 569--579).\<close>

definition handle_subscribe :: "service \<Rightarrow> websocket \<Rightarrow> message \<Rightarrow> outcome" where
  "handle_subscribe w ws msg =
     (let channels = dict_get msg ''channels'' (JList []) in
      case py_iter channels of
        Inl e \<Rightarrow> (w, Some e)
      | Inr cs \<Rightarrow>
          (case subscribe_channels (manager w) ws cs of
             (m, Some e) \<Rightarrow> (w \<lparr> manager := m \<rparr>, Some e)
           | (m, None) \<Rightarrow>
               (send_personal_message (w \<lparr> manager := m \<rparr>)
                  [(''type'', PStr ''subscription_confirmed''), (''channels'', PJson channels),
                   (''timestamp'', PIso (now w))] ws, None)))"

text \<open>\<open>WebSocketService._handle_unsubscribe\<close> (lines 220--230).\<close>

definition handle_unsubscribe :: "service \<Rightarrow> websocket \<Rightarrow> message \<Rightarrow> outcome" where
  "handle_unsubscribe w ws msg =
     (let channels = dict_get msg ''channels'' (JList []) in
      case py_iter channels of
        Inl e \<Rightarrow> (w, Some e)
      | Inr cs \<Rightarrow>
          (case unsubscribe_channels (manager w) ws cs of
             (m, Some e) \<Rightarrow> (w \<lparr> manager := m \<rparr>, Some e)
           | (m, None) \<Rightarrow>
               (send_personal_message (w \<lparr> manager := m \<rparr>)
                  [(''type'', PStr ''unsubscription_confirmed''), (''channels'', PJson channels),
                   (''timestamp'', PIso (now w))] ws, None)))"

subsection \<open>Alert lifecycle handlers\<close>

text \<open>
  \<open>WebSocketService._handle_acknowledge_alert\<close> (lines 232--274). \<open>if not user_id: return\<close>
  leaves for an unknown websocket and for the user id \<open>0\<close>. The alert that \<open>first()\<close>
  returns is updated whatever its status is. When \<open>commit\<close> raises, nothing is stored.
\<close>

definition acknowledged_by :: "alert \<Rightarrow> int \<Rightarrow> int \<Rightarrow> json \<Rightarrow> alert" where
  "acknowledged_by a user_id t notes_v =
     a \<lparr> status := ACKNOWLEDGED, acknowledged_by_id := Some user_id,
         acknowledged_at := Some t, acknowledged_notes := Some notes_v \<rparr>"

definition alert_acknowledged :: "json \<Rightarrow> int \<Rightarrow> int \<Rightarrow> outmsg" where
  "alert_acknowledged key user_id t =
     [(''type'', PStr ''alert_acknowledged''), (''alert_id'', PJson key),
      (''acknowledged_by'', PInt user_id), (''timestamp'', PIso t)]"

definition action_success :: "string \<Rightarrow> json \<Rightarrow> outmsg" where
  "action_success name key =
     [(''type'', PStr ''action_success''), (''action'', PStr name), (''alert_id'', PJson key)]"

definition handle_acknowledge_alert :: "service \<Rightarrow> websocket \<Rightarrow> message \<Rightarrow> outcome" where
  "handle_acknowledge_alert w ws msg =
     (case ws_to_user (manager w) ws of
        None \<Rightarrow> (w, None)
      | Some user_id \<Rightarrow>
          if user_id = 0 then (w, None)
          else
            (let key = dict_get msg ''alert_id'' JNull;
                 notes_v = dict_get msg ''notes'' (JStr [])
             in case find_alert (db w) key of
                  Inl e \<Rightarrow> (w, Some e)
                | Inr None \<Rightarrow> (w, None)
                | Inr (Some a) \<Rightarrow>
                    if commit_fault (db w) then (w, Some StorageError)
                    else
                      (let d = (db w)
                             \<lparr> alerts := update_first (\<lambda>x. JStr (alert_id x) = key)
                                           (\<lambda>x. acknowledged_by x user_id (now w) notes_v)
                                           (alerts (db w)),
                               alert_actions := alert_actions (db w) @
                                 [\<lparr> action_alert_id = alert_pk a, action_user_id = user_id,
                                    action = ''acknowledge'', action_notes = PJson notes_v \<rparr>] \<rparr>;
                           w1 = broadcast (w \<lparr> db := d \<rparr>) (alert_acknowledged key user_id (now w))
                       in (send_personal_message w1 (action_success ''acknowledge_alert'' key) ws,
                           None))))"

text \<open>\<open>WebSocketService._handle_resolve_alert\<close> (lines 276--321).\<close>

definition resolved_by :: "alert \<Rightarrow> int \<Rightarrow> int \<Rightarrow> json \<Rightarrow> json \<Rightarrow> alert" where
  "resolved_by a user_id t resolution_v notes_v =
     a \<lparr> status := RESOLVED, resolved_by_id := Some user_id, resolved_at := Some t,
         resolution := Some resolution_v, resolution_notes := Some notes_v \<rparr>"

definition alert_resolved :: "json \<Rightarrow> int \<Rightarrow> json \<Rightarrow> int \<Rightarrow> outmsg" where
  "alert_resolved key user_id resolution_v t =
     [(''type'', PStr ''alert_resolved''), (''alert_id'', PJson key),
      (''resolved_by'', PInt user_id), (''resolution'', PJson resolution_v),
      (''timestamp'', PIso t)]"

definition handle_resolve_alert :: "service \<Rightarrow> websocket \<Rightarrow> message \<Rightarrow> outcome" where
  "handle_resolve_alert w ws msg =
     (case ws_to_user (manager w) ws of
        None \<Rightarrow> (w, None)
      | Some user_id \<Rightarrow>
          if user_id = 0 then (w, None)
          else
            (let key = dict_get msg ''alert_id'' JNull;
                 resolution_v = dict_get msg ''resolution'' (JStr []);
                 notes_v = dict_get msg ''notes'' (JStr [])
             in case find_alert (db w) key of
                  Inl e \<Rightarrow> (w, Some e)
                | Inr None \<Rightarrow> (w, None)
                | Inr (Some a) \<Rightarrow>
                    if commit_fault (db w) then (w, Some StorageError)
                    else
                      (let d = (db w)
                             \<lparr> alerts := update_first (\<lambda>x. JStr (alert_id x) = key)
                                           (\<lambda>x. resolved_by x user_id (now w) resolution_v notes_v)
                                           (alerts (db w)),
                               alert_actions := alert_actions (db w) @
                                 [\<lparr> action_alert_id = alert_pk a, action_user_id = user_id,
                                    action = ''resolve'',
                                    action_notes = PFormat [Lit ''Resolution: '', Interp resolution_v,
                                                            Lit ''. Notes: '', Interp notes_v] \<rparr>] \<rparr>;
                           w1 = broadcast (w \<lparr> db := d \<rparr>)
                                  (alert_resolved key user_id resolution_v (now w))
                       in (send_personal_message w1 (action_success ''resolve_alert'' key) ws,
                           None))))"

subsection \<open>Data requests\<close>

text \<open>\<open>ConnectionManager.get_connection_stats\<close> (lines 168--182).\<close>

definition get_connection_stats :: "connection_manager \<Rightarrow> connection_stats" where
  "get_connection_stats m =
     \<lparr> total_connections = (\<Sum>u \<in> dom (active_connections m). card (the (active_connections m u))),
       users_online = card (dom (active_connections m)),
       connections_by_role = (\<lambda>r. map_option card (role_connections m r)),
       subscribers_by_channel = (\<lambda>c. map_option card (channel_subscriptions m c)) \<rparr>"

text \<open>\<open>WebSocketService._send_sensor_data\<close> (lines 344--380).\<close>

definition send_sensor_data :: "service \<Rightarrow> websocket \<Rightarrow> json \<Rightarrow> outcome" where
  "send_sensor_data w ws parameters =
     (case py_get parameters ''sensor_types'' (JList []) of
        Inl e \<Rightarrow> (w, Some e)
      | Inr sensor_types \<Rightarrow>
          (case py_get parameters ''limit'' (JInt 100) of
             Inl e \<Rightarrow> (w, Some e)
           | Inr limit \<Rightarrow>
               (case sensor_data_rows (db w) sensor_types limit of
                  Inl e \<Rightarrow> (w, Some e)
                | Inr data \<Rightarrow>
                    (send_personal_message w
                       [(''type'', PStr ''sensor_data_response''), (''data'', PList data),
                        (''timestamp'', PIso (now w))] ws, None))))"

text \<open>\<open>WebSocketService._send_alerts\<close> (lines 382--420).\<close>

definition send_alerts :: "service \<Rightarrow> websocket \<Rightarrow> json \<Rightarrow> outcome" where
  "send_alerts w ws parameters =
     (case py_get parameters ''status'' (JList [JStr ''active'']) of
        Inl e \<Rightarrow> (w, Some e)
      | Inr status_filter \<Rightarrow>
          (case py_get parameters ''severity'' (JList []) of
             Inl e \<Rightarrow> (w, Some e)
           | Inr severity_filter \<Rightarrow>
               (case alert_rows (db w) status_filter severity_filter of
                  Inl e \<Rightarrow> (w, Some e)
                | Inr data \<Rightarrow>
                    (send_personal_message w
                       [(''type'', PStr ''alerts_response''), (''data'', PList data),
                        (''timestamp'', PIso (now w))] ws, None))))"

text \<open>\<open>WebSocketService._send_system_stats\<close> (lines 422--448).\<close>

definition send_system_stats :: "service \<Rightarrow> websocket \<Rightarrow> outcome" where
  "send_system_stats w ws =
     (case system_stat_rows (db w) of
        Inl e \<Rightarrow> (w, Some e)
      | Inr (sensor_stats, alert_stats) \<Rightarrow>
          (send_personal_message w
             [(''type'', PStr ''system_stats_response''),
              (''data'', PDict [(''sensors'', sensor_stats), (''alerts'', alert_stats),
                               (''connections'', PStats (get_connection_stats (manager w))),
                               (''timestamp'', PIso (now w))]),
              (''timestamp'', PIso (now w))] ws, None))"

text \<open>
  \<open>WebSocketService._send_analytics\<close> (lines 450--503). Line 6 of the module imports only
  \<open>datetime\<close> and \<open>timezone\<close> from \<open>datetime\<close>, and no other statement of the module
  binds the name \<open>timedelta\<close>: evaluating it, in any of the four branches of lines
  457--464, raises \<open>NameError\<close>.
\<close>

definition timedelta :: "int \<Rightarrow> error + int" where
  "timedelta seconds = Inl NameError"

definition start_time_of :: "int \<Rightarrow> json \<Rightarrow> error + int" where
  "start_time_of t time_range =
     (case (if time_range = JStr ''1h'' then timedelta (1 * 3600)
            else if time_range = JStr ''24h'' then timedelta (24 * 3600)
            else if time_range = JStr ''7d'' then timedelta (7 * 86400)
            else timedelta (24 * 3600)) of
        Inl e \<Rightarrow> Inl e
      | Inr delta \<Rightarrow> Inr (t - delta))"

text \<open>The metrics query of lines 467--474: not older than the start, newest first.\<close>

definition query_metrics :: "database \<Rightarrow> int \<Rightarrow> json \<Rightarrow> error + metric list" where
  "query_metrics d start_time metric_type_v =
     (if metrics_fault d then Inl StorageError
      else Inr (rev (sort_key ts
             (filter (\<lambda>mt. start_time \<le> ts mt \<and>
                           (if truthy metric_type_v then JStr (metric_type mt) = metric_type_v
                            else True))
                (metrics d)))))"

text \<open>
  The grouping of lines 477--482: \<open>time_series\<close> is a dictionary from the hour of a
  reading to the values read in that hour, in insertion order. The key, the reading's
  \<open>strftime("%Y-%m-%d %H:00:00")\<close>, is represented by the number of the hour.
\<close>

fun append_value :: "(int \<times> real list) list \<Rightarrow> int \<Rightarrow> real \<Rightarrow> (int \<times> real list) list" where
  "append_value [] k v = [(k, [v])]"
| "append_value ((k', vs) # rest) k v =
     (if k' = k then (k', vs @ [v]) # rest else (k', vs) # append_value rest k v)"

fun group_by_hour :: "(int \<times> real list) list \<Rightarrow> metric list \<Rightarrow> (int \<times> real list) list" where
  "group_by_hour series [] = series"
| "group_by_hour series (mt # mts) =
     group_by_hour (append_value series (ts mt div 3600) (metric_value mt)) mts"

text \<open>
  One row of \<open>analytics_data\<close> (lines 487--493). Every list of \<open>time_series\<close> holds the
  value appended when its key was created, so \<open>sum(values) / len(values)\<close>, \<open>min\<close> and
  \<open>max\<close> are applied to non-empty lists only.
\<close>

definition bucket_row :: "int \<times> real list \<Rightarrow> pyval" where
  "bucket_row b =
     PDict [(''timestamp'', PHour (fst b)),
            (''avg'', PFloat (sum_list (snd b) / real (length (snd b)))),
            (''min'', PFloat (fold min (tl (snd b)) (hd (snd b)))),
            (''max'', PFloat (fold max (tl (snd b)) (hd (snd b)))),
            (''count'', PInt (int (length (snd b))))]"

text \<open>\<open>sorted(analytics_data, key=lambda x: x["timestamp"])\<close>: the rows in the order of their keys.\<close>

definition time_series :: "metric list \<Rightarrow> pyval list" where
  "time_series ms = map bucket_row (sort_key fst (group_by_hour [] ms))"

definition send_analytics :: "service \<Rightarrow> websocket \<Rightarrow> json \<Rightarrow> outcome" where
  "send_analytics w ws parameters =
     (case py_get parameters ''metric_type'' JNull of
        Inl e \<Rightarrow> (w, Some e)
      | Inr metric_type_v \<Rightarrow>
          (case py_get parameters ''time_range'' (JStr ''24h'') of
             Inl e \<Rightarrow> (w, Some e)
           | Inr time_range \<Rightarrow>
               (case start_time_of (now w) time_range of
                  Inl e \<Rightarrow> (w, Some e)
                | Inr start_time \<Rightarrow>
                    (case query_metrics (db w) start_time metric_type_v of
                       Inl e \<Rightarrow> (w, Some e)
                     | Inr ms \<Rightarrow>
                         (send_personal_message w
                            [(''type'', PStr ''analytics_response''),
                             (''data'', PDict [(''metric_type'', PJson metric_type_v),
                                              (''time_range'', PJson time_range),
                                              (''time_series'', PList (time_series ms))]),
                             (''timestamp'', PIso (now w))] ws, None)))))"

text \<open>\<open>WebSocketService._handle_data_request\<close> (lines 323--335).\<close>

definition handle_data_request :: "service \<Rightarrow> websocket \<Rightarrow> message \<Rightarrow> outcome" where
  "handle_data_request w ws msg =
     (let data_type = dict_get msg ''data_type'' JNull;
          parameters = dict_get msg ''parameters'' (JObj [])
      in if data_type = JStr ''sensor_data'' then send_sensor_data w ws parameters
         else if data_type = JStr ''alerts'' then send_alerts w ws parameters
         else if data_type = JStr ''system_stats'' then send_system_stats w ws
         else if data_type = JStr ''analytics'' then send_analytics w ws parameters
         else (w, None))"

text \<open>\<open>WebSocketService._handle_ping\<close> (lines 337--342).\<close>

definition handle_ping :: "service \<Rightarrow> websocket \<Rightarrow> outcome" where
  "handle_ping w ws =
     (send_personal_message w [(''type'', PStr ''pong''), (''timestamp'', PIso (now w))] ws, None)"

subsection \<open>Dispatch\<close>

text \<open>
  \<open>WebSocketService.handle_websocket_message\<close> (lines 191--218). \<open>dispatch\<close> is the body
  of the \<open>try\<close> statement, \<open>handle_websocket_message\<close> the whole method with its
  \<open>except Exception\<close> clause; its outcome carries the exception that reaches the caller.
\<close>

definition unknown_type_error :: "json \<Rightarrow> outmsg" where
  "unknown_type_error message_type =
     [(''type'', PStr ''error''),
      (''message'', PFormat [Lit ''Unknown message type: '', Interp message_type])]"

definition internal_error :: outmsg where
  "internal_error = [(''type'', PStr ''error''), (''message'', PStr ''Internal server error'')]"


definition dispatch :: "service \<Rightarrow> websocket \<Rightarrow> message \<Rightarrow> outcome" where
  "dispatch w ws msg =
     (let message_type = dict_get msg ''type'' JNull
      in if message_type = JStr ''subscribe'' then handle_subscribe w ws msg
         else if message_type = JStr ''unsubscribe'' then handle_unsubscribe w ws msg
         else if message_type = JStr ''acknowledge_alert'' then handle_acknowledge_alert w ws msg
         else if message_type = JStr ''resolve_alert'' then handle_resolve_alert w ws msg
         else if message_type = JStr ''request_data'' then handle_data_request w ws msg
         else if message_type = JStr ''ping'' then handle_ping w ws
         else (send_personal_message w (unknown_type_error message_type) ws, None))"

definition handle_websocket_message :: "service \<Rightarrow> websocket \<Rightarrow> message \<Rightarrow> outcome" where
  "handle_websocket_message w ws msg =
     (case dispatch w ws msg of
        (w', None) \<Rightarrow> (w', None)
      | (w', Some e) \<Rightarrow> (send_personal_message w' internal_error ws, None))"

text \<open>A service whose storage is empty and never fails.\<close>

definition init_database :: database where
  "init_database =
     \<lparr> alerts = [], alert_actions = [], metrics = [], query_fault = (\<lambda>key. False),
       commit_fault = False, metrics_fault = False,
       sensor_data_rows = (\<lambda>sensor_types limit. Inr []),
       alert_rows = (\<lambda>status_filter severity_filter. Inr []),
       system_stat_rows = Inr (PDict [], PDict []) \<rparr>"

definition init_service :: service where
  "init_service =
     \<lparr> manager = init_manager, outbox = (\<lambda>ws. []), dead = {}, refused = {}, now = 0,
       db = init_database \<rparr>"

subsection \<open>Example inputs\<close>

text \<open>
  The readings of the specification's analytics example, newest first as the query returns
  them: 11:05, 10:50 and 10:05 with the values 5, 3 and 1.
\<close>

definition example_metrics :: "metric list" where
  "example_metrics =
     [\<lparr> sensor_id = Some 1, metric_type = ''speed'', metric_value = 5,
        ts = 11 * 3600 + 5 * 60, sensor_name = None \<rparr>,
      \<lparr> sensor_id = Some 1, metric_type = ''speed'', metric_value = 3,
        ts = 10 * 3600 + 50 * 60, sensor_name = None \<rparr>,
      \<lparr> sensor_id = Some 1, metric_type = ''speed'', metric_value = 1,
        ts = 10 * 3600 + 5 * 60, sensor_name = None \<rparr>]"

definition analytics_service :: service where
  "analytics_service =
     init_service \<lparr> manager := connect_indexes init_manager 1 7 ''viewer'', now := 12 * 3600,
                    db := init_database \<lparr> metrics := example_metrics \<rparr> \<rparr>"

text \<open>An alert that user 9 has resolved, and a service that stores it and has user 7 connected.\<close>

definition resolved_alert :: alert where
  "resolved_alert =
     \<lparr> alert_pk = 1, alert_id = ''A1'', status = RESOLVED, acknowledged_by_id = None,
       acknowledged_at = None, acknowledged_notes = None, resolved_by_id = Some 9,
       resolved_at = Some 0, resolution = Some (JStr ''fixed''),
       resolution_notes = Some (JStr []) \<rparr>"

definition alert_service :: service where
  "alert_service =
     init_service \<lparr> manager := connect_indexes init_manager 1 7 ''operator'', now := 60,
                    db := init_database \<lparr> alerts := [resolved_alert] \<rparr> \<rparr>"






section \<open>Properties of the registry\<close>

lemma discard_from_index_apply:
  "discard_from_index d k ws k' =
     (if k' = k then (case d k of None \<Rightarrow> None
                      | Some S \<Rightarrow> if S - {ws} = {} then None else Some (S - {ws}))
      else d k')"
  by (simp add: discard_from_index_def split: option.splits)

lemma add_to_index_apply:
  "add_to_index d k ws k' =
     (if k' = k then Some (insert ws (case d k of None \<Rightarrow> {} | Some S \<Rightarrow> S)) else d k')"
  by (simp add: add_to_index_def)

lemma ws_to_user_disconnect: "ws_to_user (disconnect m a) = (ws_to_user m)(a := None)"
  by (simp add: disconnect_def Let_def)

lemma ws_to_role_disconnect: "ws_to_role (disconnect m a) = (ws_to_role m)(a := None)"
  by (simp add: disconnect_def Let_def)

lemma channel_subscriptions_disconnect:
  "channel_subscriptions (disconnect m a) ch =
     map_option (\<lambda>S. S - {a}) (channel_subscriptions m ch)"
  by (simp add: disconnect_def Let_def)

lemma active_connections_disconnect:
  "active_connections (disconnect m a) =
     (case ws_to_user m a of
        None \<Rightarrow> active_connections m
      | Some u \<Rightarrow> if u \<noteq> 0 then discard_from_index (active_connections m) u a
                  else active_connections m)"
  by (simp add: disconnect_def Let_def)

lemma role_connections_disconnect:
  "role_connections (disconnect m a) =
     (case ws_to_role m a of
        None \<Rightarrow> role_connections m
      | Some r \<Rightarrow> if r \<noteq> [] then discard_from_index (role_connections m) r a
                  else role_connections m)"
  by (simp add: disconnect_def Let_def)

lemma more_disconnect: "connection_manager.more (disconnect m a) = connection_manager.more m"
  by (simp add: disconnect_def Let_def)

lemma discard_from_index_commute:
  "discard_from_index (discard_from_index d k a) k' b =
   discard_from_index (discard_from_index d k' b) k a"
proof (rule ext)
  fix x
  show "discard_from_index (discard_from_index d k a) k' b x =
        discard_from_index (discard_from_index d k' b) k a x"
    by (auto simp: discard_from_index_apply split: option.splits)
qed

text \<open>The order in which failed websockets are disconnected does not matter.\<close>

lemma disconnect_commute:
  "disconnect (disconnect m a) b = disconnect (disconnect m b) a"
proof (cases "a = b")
  case True
  then show ?thesis by simp
next
  case False
  have ac: "active_connections (disconnect (disconnect m a) b) =
            active_connections (disconnect (disconnect m b) a)"
    using False
    by (simp add: active_connections_disconnect ws_to_user_disconnect
        discard_from_index_commute split: option.splits)
  have rc: "role_connections (disconnect (disconnect m a) b) =
            role_connections (disconnect (disconnect m b) a)"
    using False
    by (simp add: role_connections_disconnect ws_to_role_disconnect
        discard_from_index_commute split: option.splits)
  have cs: "channel_subscriptions (disconnect (disconnect m a) b) =
            channel_subscriptions (disconnect (disconnect m b) a)"
    by (rule ext) (auto simp: channel_subscriptions_disconnect option.map_comp comp_def
        intro!: option.map_cong)
  have u: "ws_to_user (disconnect (disconnect m a) b) = ws_to_user (disconnect (disconnect m b) a)"
    using False by (auto simp: ws_to_user_disconnect fun_eq_iff)
  have r: "ws_to_role (disconnect (disconnect m a) b) = ws_to_role (disconnect (disconnect m b) a)"
    using False by (auto simp: ws_to_role_disconnect fun_eq_iff)
  show ?thesis
    by (rule connection_manager.equality) (simp_all add: ac rc cs u r more_disconnect)
qed

lemma member_at_discard_other:
  "x \<noteq> a \<Longrightarrow> member_at (discard_from_index d k a) k' x = member_at d k' x"
  by (auto simp: member_at_def discard_from_index_apply split: option.splits)

text \<open>Disconnecting one websocket changes no other websocket's memberships or mappings.\<close>

lemma disconnect_other:
  assumes "x \<noteq> a"
  shows "member_at (active_connections (disconnect m a)) u x = member_at (active_connections m) u x"
    and "member_at (role_connections (disconnect m a)) r x = member_at (role_connections m) r x"
    and "subscribed (disconnect m a) x ch = subscribed m x ch"
    and "ws_to_user (disconnect m a) x = ws_to_user m x"
    and "ws_to_role (disconnect m a) x = ws_to_role m x"
proof -
  show "member_at (active_connections (disconnect m a)) u x = member_at (active_connections m) u x"
    using assms
    by (simp add: active_connections_disconnect member_at_discard_other split: option.splits)
  show "member_at (role_connections (disconnect m a)) r x = member_at (role_connections m) r x"
    using assms
    by (simp add: role_connections_disconnect member_at_discard_other split: option.splits)
  show "subscribed (disconnect m a) x ch = subscribed m x ch"
    using assms
    by (cases "channel_subscriptions m ch")
      (simp_all add: subscribed_def member_at_def channel_subscriptions_disconnect)
  show "ws_to_user (disconnect m a) x = ws_to_user m x"
    using assms by (simp add: ws_to_user_disconnect)
  show "ws_to_role (disconnect m a) x = ws_to_role m x"
    using assms by (simp add: ws_to_role_disconnect)
qed


lemma disconnect_idempotent: "disconnect (disconnect m c) c = disconnect m c"
proof -
  have cs: "channel_subscriptions (disconnect (disconnect m c) c) =
            channel_subscriptions (disconnect m c)"
    by (rule ext) (simp add: channel_subscriptions_disconnect option.map_comp comp_def)
  show ?thesis
    by (rule connection_manager.equality)
      (simp_all add: cs active_connections_disconnect role_connections_disconnect
        ws_to_user_disconnect ws_to_role_disconnect more_disconnect)
qed

lemma disconnect_absent:
  assumes "\<not> present m c"
  shows "disconnect m c = m"
proof -
  from assms have u: "ws_to_user m c = None" and r: "ws_to_role m c = None"
    and ch: "\<And>k S. channel_subscriptions m k = Some S \<Longrightarrow> c \<notin> S"
    by (auto simp: present_def in_index_def)
  have cs: "channel_subscriptions (disconnect m c) = channel_subscriptions m"
  proof (rule ext)
    fix k
    show "channel_subscriptions (disconnect m c) k = channel_subscriptions m k"
      using ch [of k] by (cases "channel_subscriptions m k") (simp_all add: channel_subscriptions_disconnect)
  qed
  have uu: "(ws_to_user m)(c := None) = ws_to_user m" and rr: "(ws_to_role m)(c := None) = ws_to_role m"
    using u r by (auto simp: fun_eq_iff)
  show ?thesis
    by (rule connection_manager.equality)
      (simp_all add: cs active_connections_disconnect role_connections_disconnect
        ws_to_user_disconnect ws_to_role_disconnect more_disconnect u r uu rr)
qed

lemma subscribed_subscribe:
  "subscribed (subscribe_to_channel m ws channel) ws channel"
  by (simp add: subscribed_def member_at_def subscribe_to_channel_def add_to_index_def)

lemma not_subscribed_unsubscribe:
  "\<not> subscribed (unsubscribe_from_channel m ws channel) ws channel"
  by (simp add: subscribed_def member_at_def unsubscribe_from_channel_def
      discard_from_index_def split: option.splits)

lemma subscribe_twice:
  "subscribe_to_channel (subscribe_to_channel m ws channel) ws channel =
   subscribe_to_channel m ws channel"
  by (simp add: subscribe_to_channel_def add_to_index_def)

text \<open>
  Claim C9. Subscribing a connection to a topic twice and unsubscribing it once leaves it
  unsubscribed; more precisely the second subscription changes nothing, so membership is
  per (connection, topic) pair and not counted.
\<close>

theorem subscribe_twice_unsubscribe_once:
  "\<not> subscribed
       (unsubscribe_from_channel
          (subscribe_to_channel (subscribe_to_channel m ws channel) ws channel) ws channel)
       ws channel
   \<and> subscribe_to_channel (subscribe_to_channel m ws channel) ws channel =
       subscribe_to_channel m ws channel"
  by (simp add: not_subscribed_unsubscribe subscribe_twice)

lemma unsubscribe_deletes_empty_topic:
  "channel_subscriptions (unsubscribe_from_channel m ws channel) channel \<noteq> Some {}"
  by (simp add: unsubscribe_from_channel_def discard_from_index_apply split: option.splits)

text \<open>
  Claim C8. Unregistering a connection that is in no index and no mapping of the registry
  leaves the whole registry as it was, and a second \<open>disconnect\<close> of the same connection
  changes nothing after the first. \<open>disconnect\<close> has no failing branch: every dictionary
  access of lines 55--80 is guarded or has a default.
\<close>

theorem disconnect_absent_is_no_op:
  "(\<not> present m c \<longrightarrow> disconnect m c = m) \<and>
   disconnect (disconnect m c) c = disconnect m c"
  by (simp add: disconnect_absent disconnect_idempotent)

theorem disconnect_absent_is_no_op_witness:
  "\<not> present (connect_indexes init_manager 1 7 ''viewer'') 2 \<and>
   disconnect (connect_indexes init_manager 1 7 ''viewer'') 2 =
     connect_indexes init_manager 1 7 ''viewer'' \<and>
   disconnect (disconnect (connect_indexes init_manager 1 7 ''viewer'') 2) 2 =
     disconnect (connect_indexes init_manager 1 7 ''viewer'') 2"
proof -
  have absent: "\<not> present (connect_indexes init_manager 1 7 ''viewer'') 2"
    by (simp add: present_def in_index_def connect_indexes_def init_manager_def
        add_to_index_apply)
  with disconnect_absent_is_no_op [of "connect_indexes init_manager 1 7 ''viewer''" 2]
  show ?thesis by simp
qed

text \<open>
  Claim C1, at the input where the code departs from it. A connection registered with the
  user id \<open>0\<close>, or with the empty role name, fails the truthiness guards of lines 61 and
  67: after \<open>disconnect\<close> it is still a member of its by-user set, respectively its by-role
  set, while both of its mappings are gone.
\<close>

theorem disconnect_keeps_falsy_user_and_role:
  "member_at (active_connections (disconnect (connect_indexes init_manager 1 0 ''viewer'') 1)) 0 1 \<and>
   ws_to_user (disconnect (connect_indexes init_manager 1 0 ''viewer'') 1) 1 = None \<and>
   member_at (role_connections (disconnect (connect_indexes init_manager 2 7 []) 2)) [] 2 \<and>
   ws_to_role (disconnect (connect_indexes init_manager 2 7 []) 2) 2 = None"
  by (simp add: member_at_def active_connections_disconnect role_connections_disconnect
      ws_to_user_disconnect ws_to_role_disconnect connect_indexes_def init_manager_def
      add_to_index_apply)

text \<open>
  Claim C5, at the input where the code departs from it. \<open>unsubscribe_from_channel\<close>
  deletes a topic whose subscriber set it has emptied, but \<open>disconnect\<close> only discards the
  websocket from every subscriber set: unregistering the last subscriber of
  \<open>sensor_42\<close> leaves that topic in the index, mapped to the empty set.
\<close>

theorem disconnect_leaves_empty_topic:
  "channel_subscriptions
     (disconnect
        (subscribe_to_channel (connect_indexes init_manager 1 7 ''viewer'') 1 (KStr ''sensor_42'')) 1)
     (KStr ''sensor_42'') = Some {}"
  by (simp add: channel_subscriptions_disconnect subscribe_to_channel_def connect_indexes_def
      init_manager_def add_to_index_apply)

subsection \<open>The registry under truthy keys\<close>

lemma in_index_iff_member_at: "in_index d x \<longleftrightarrow> (\<exists>k. member_at d k x)"
  by (auto simp: in_index_def member_at_def split: option.splits)

lemma member_at_discard_self: "\<not> member_at (discard_from_index d k a) k a"
  by (simp add: member_at_def discard_from_index_apply split: option.splits)

lemma member_at_discard_imp:
  "member_at (discard_from_index d k a) k' x \<Longrightarrow> member_at d k' x"
  by (auto simp: member_at_def discard_from_index_apply split: option.splits if_splits)

lemma member_at_add:
  "member_at (add_to_index d k a) k' x \<longleftrightarrow> (k' = k \<and> x = a) \<or> member_at d k' x"
  by (auto simp: member_at_def add_to_index_apply split: option.splits)

text \<open>
  For a registry that is \<open>well_indexed\<close>, \<open>disconnect\<close> removes the connection from
  every set of the three indexes.
\<close>

lemma disconnect_removes_everywhere:
  assumes "well_indexed m"
  shows "\<not> in_index (active_connections (disconnect m c)) c"
    and "\<not> in_index (role_connections (disconnect m c)) c"
    and "\<not> in_index (channel_subscriptions (disconnect m c)) c"
proof -
  show "\<not> in_index (active_connections (disconnect m c)) c"
  proof
    assume "in_index (active_connections (disconnect m c)) c"
    then obtain u where u: "member_at (active_connections (disconnect m c)) u c"
      by (auto simp: in_index_iff_member_at)
    show False
    proof (cases "ws_to_user m c")
      case None
      with u have "member_at (active_connections m) u c"
        by (simp add: active_connections_disconnect)
      with assms None show False by (auto simp: well_indexed_def)
    next
      case (Some v)
      show False
      proof (cases "v = 0")
        case True
        with u Some have "member_at (active_connections m) u c"
          by (simp add: active_connections_disconnect)
        with assms Some True show False by (auto simp: well_indexed_def)
      next
        case False
        with u Some have d: "member_at (discard_from_index (active_connections m) v c) u c"
          by (simp add: active_connections_disconnect)
        then have "member_at (active_connections m) u c" by (rule member_at_discard_imp)
        with assms Some have "u = v" by (auto simp: well_indexed_def)
        with d show False by (simp add: member_at_discard_self)
      qed
    qed
  qed
  show "\<not> in_index (role_connections (disconnect m c)) c"
  proof
    assume "in_index (role_connections (disconnect m c)) c"
    then obtain r where r: "member_at (role_connections (disconnect m c)) r c"
      by (auto simp: in_index_iff_member_at)
    show False
    proof (cases "ws_to_role m c")
      case None
      with r have "member_at (role_connections m) r c"
        by (simp add: role_connections_disconnect)
      with assms None show False by (auto simp: well_indexed_def)
    next
      case (Some v)
      show False
      proof (cases "v = []")
        case True
        with r Some have "member_at (role_connections m) r c"
          by (simp add: role_connections_disconnect)
        with assms Some True show False by (auto simp: well_indexed_def)
      next
        case False
        with r Some have d: "member_at (discard_from_index (role_connections m) v c) r c"
          by (simp add: role_connections_disconnect)
        then have "member_at (role_connections m) r c" by (rule member_at_discard_imp)
        with assms Some have "r = v" by (auto simp: well_indexed_def)
        with d show False by (simp add: member_at_discard_self)
      qed
    qed
  qed
  show "\<not> in_index (channel_subscriptions (disconnect m c)) c"
    by (auto simp: in_index_def channel_subscriptions_disconnect)
qed

text \<open>
  \<open>well_indexed\<close> holds initially and is kept by every registry operation, provided
  that connections are registered once and with a truthy user id and role.
\<close>

lemma well_indexed_init: "well_indexed init_manager"
  by (simp add: well_indexed_def init_manager_def member_at_def)

lemma well_indexed_connect:
  assumes "well_indexed m" and "ws_to_user m ws = None" and "ws_to_role m ws = None"
    and "user_id \<noteq> 0" and "role \<noteq> []"
  shows "well_indexed (connect_indexes m ws user_id role)"
  using assms
  by (auto simp: well_indexed_def connect_indexes_def member_at_add)

lemma well_indexed_subscribe:
  "well_indexed m \<Longrightarrow> well_indexed (subscribe_to_channel m ws channel)"
  by (simp add: well_indexed_def subscribe_to_channel_def)

lemma well_indexed_unsubscribe:
  "well_indexed m \<Longrightarrow> well_indexed (unsubscribe_from_channel m ws channel)"
  by (simp add: well_indexed_def unsubscribe_from_channel_def)

lemma well_indexed_disconnect:
  assumes "well_indexed m"
  shows "well_indexed (disconnect m c)"
proof -
  have a: "ws_to_user (disconnect m c) x = Some u \<and> u \<noteq> 0"
    if "member_at (active_connections (disconnect m c)) u x" for u x
  proof (cases "x = c")
    case True
    with that disconnect_removes_everywhere(1) [OF assms, of c] show ?thesis
      by (auto simp: in_index_iff_member_at)
  next
    case False
    with that assms show ?thesis
      by (simp add: disconnect_other well_indexed_def)
  qed
  have b: "ws_to_role (disconnect m c) x = Some r \<and> r \<noteq> []"
    if "member_at (role_connections (disconnect m c)) r x" for r x
  proof (cases "x = c")
    case True
    with that disconnect_removes_everywhere(2) [OF assms, of c] show ?thesis
      by (auto simp: in_index_iff_member_at)
  next
    case False
    with that assms show ?thesis
      by (simp add: disconnect_other well_indexed_def)
  qed
  from a b show ?thesis by (simp add: well_indexed_def)
qed

text \<open>
  \<open>no_empty_topic\<close> is kept by registering, subscribing and unsubscribing; \<open>disconnect\<close>
  is the one operation that breaks it.
\<close>

lemma no_empty_topic_init: "no_empty_topic init_manager"
  by (simp add: no_empty_topic_def init_manager_def)

lemma no_empty_topic_connect:
  "no_empty_topic m \<Longrightarrow> no_empty_topic (connect_indexes m ws user_id role)"
  by (simp add: no_empty_topic_def connect_indexes_def)

lemma no_empty_topic_subscribe:
  "no_empty_topic m \<Longrightarrow> no_empty_topic (subscribe_to_channel m ws channel)"
  by (simp add: no_empty_topic_def subscribe_to_channel_def add_to_index_apply)

lemma no_empty_topic_unsubscribe:
  "no_empty_topic m \<Longrightarrow> no_empty_topic (unsubscribe_from_channel m ws channel)"
  by (simp add: no_empty_topic_def unsubscribe_from_channel_def discard_from_index_apply
      split: option.splits)

section \<open>Properties of sending\<close>



lemma outbox_send_each:
  "outbox (send_each w targets msg) x =
     (if x \<in> targets \<and> x \<notin> dead w then outbox w x @ [msg] else outbox w x)"
  by (simp add: send_each_def Let_def)


lemma manager_send_each:
  "manager (send_each w targets msg) =
     disconnect_each (manager w) (sorted_list_of_set (targets \<inter> dead w))"
  by (simp add: send_each_def Let_def)







lemma all_websockets_iff: "x \<in> all_websockets m \<longleftrightarrow> in_index (active_connections m) x"
  by (auto simp: all_websockets_def in_index_def ran_def)

lemma send_each_one_failure:
  assumes "targets \<inter> dead w = {c}"
  shows "manager (send_each w targets msg) = disconnect (manager w) c"
    and "x \<in> targets \<Longrightarrow> x \<noteq> c \<Longrightarrow> outbox (send_each w targets msg) x = outbox w x @ [msg]"
    and "outbox (send_each w targets msg) c = outbox w c"
proof -
  show "manager (send_each w targets msg) = disconnect (manager w) c"
    by (simp add: manager_send_each assms disconnect_each_def)
  show "outbox (send_each w targets msg) x = outbox w x @ [msg]" if "x \<in> targets" "x \<noteq> c"
    using that assms by (auto simp: outbox_send_each)
  show "outbox (send_each w targets msg) c = outbox w c"
    using assms by (auto simp: outbox_send_each)
qed

lemma broadcast_one_failure:
  assumes "all_websockets (manager w) \<inter> dead w = {c}"
  shows "manager (broadcast w msg) = disconnect (manager w) c"
    and "x \<in> all_websockets (manager w) \<Longrightarrow> x \<noteq> c \<Longrightarrow>
         outbox (broadcast w msg) x = outbox w x @ [msg]"
  using send_each_one_failure [OF assms] by (simp_all add: broadcast_def)

text \<open>
  Claim C2, at the input where the code departs from it. Two connections are registered, the
  first with user id \<open>0\<close>, and the first one's transport is gone. \<open>broadcast\<close> still
  delivers to the second connection and calls \<open>disconnect\<close> for the first only
  (\<open>broadcast_one_failure\<close> and \<open>send_each_keeps_live\<close> show this for every registry), but
  that \<open>disconnect\<close> skips the by-user index for the falsy user id: the failed connection
  stays in \<open>active_connections[0]\<close> and remains a target of every later broadcast.
\<close>

theorem broadcast_keeps_failed_user_zero:
  "outbox (broadcast
       (init_world \<lparr> manager := connect_indexes (connect_indexes init_manager 1 0 ''viewer'') 2 7 ''viewer'',
                     dead := {1} \<rparr>)
       [(''type'', PStr ''system_health'')]) 2 = [[(''type'', PStr ''system_health'')]] \<and>
   1 \<in> all_websockets (manager (broadcast
       (init_world \<lparr> manager := connect_indexes (connect_indexes init_manager 1 0 ''viewer'') 2 7 ''viewer'',
                     dead := {1} \<rparr>)
       [(''type'', PStr ''system_health'')]))"
proof -
  define wz where "wz = init_world \<lparr> manager :=
    connect_indexes (connect_indexes init_manager 1 0 ''viewer'') 2 7 ''viewer'', dead := {1} \<rparr>"
  have "active_connections (manager wz) = [0 \<mapsto> {1}, 7 \<mapsto> {2}]"
    by (simp add: wz_def connect_indexes_def init_manager_def add_to_index_def init_world_def)
  then have all_wz: "all_websockets (manager wz) = {1, 2}"
    by (simp add: all_websockets_def)
  have d: "dead wz = {1}" by (simp add: wz_def)
  have i: "all_websockets (manager wz) \<inter> dead wz = {1}" by (simp add: all_wz d)
  have o: "outbox wz 2 = []" by (simp add: wz_def init_world_def)
  have "outbox (broadcast wz [(''type'', PStr ''system_health'')]) 2 =
        outbox wz 2 @ [[(''type'', PStr ''system_health'')]]"
    by (rule broadcast_one_failure(2) [OF i]) (simp_all add: all_wz)
  moreover have "member_at (active_connections (disconnect (manager wz) 1)) 0 1"
    by (simp add: member_at_def active_connections_disconnect wz_def connect_indexes_def
        init_manager_def add_to_index_apply)
  then have "1 \<in> all_websockets (disconnect (manager wz) 1)"
    unfolding all_websockets_iff in_index_iff_member_at by (rule exI)
  ultimately show ?thesis
    unfolding wz_def [symmetric] by (simp add: broadcast_one_failure(1) [OF i] o)
qed




text \<open>
  Claim C10. When \<open>accept\<close> succeeds, \<open>connect\<close> registers the connection and then makes
  exactly one send, the personal \<open>connection_status\<close> message with status \<open>connected\<close> and
  the connection's own user id and role. When that send succeeds the message is appended to
  the connection's frames (so it is the first frame of a fresh connection), no other
  websocket is sent anything, and the connection is in its by-user and by-role sets.
\<close>

theorem connect_sends_connection_status:
  assumes "ws \<notin> refused w"
  shows "connect w ws u r =
           Inr (send_personal_message (w \<lparr> manager := connect_indexes (manager w) ws u r \<rparr>)
                  (connection_status (now w) u r) ws) \<and>
         (ws \<notin> dead w \<longrightarrow>
            (\<exists>w'. connect w ws u r = Inr w' \<and>
                  outbox w' ws = outbox w ws @ [connection_status (now w) u r] \<and>
                  (\<forall>x. x \<noteq> ws \<longrightarrow> outbox w' x = outbox w x) \<and>
                  manager w' = connect_indexes (manager w) ws u r \<and>
                  member_at (active_connections (manager w')) u ws \<and>
                  member_at (role_connections (manager w')) r ws)) \<and>
         map_of (connection_status (now w) u r) ''type'' = Some (PStr ''connection_status'') \<and>
         map_of (connection_status (now w) u r) ''status'' = Some (PStr ''connected'') \<and>
         map_of (connection_status (now w) u r) ''user_id'' = Some (PInt u) \<and>
         map_of (connection_status (now w) u r) ''role'' = Some (PStr r)"
  using assms
  by (simp add: connect_def send_personal_message_def connection_status_def member_at_def
      connect_indexes_def add_to_index_apply)


theorem connect_sends_connection_status_witness:
  "1 \<notin> refused init_world \<and> 1 \<notin> dead init_world \<and>
   (\<exists>w'. connect init_world 1 7 ''traffic_control'' = Inr w' \<and>
         outbox w' 1 = [connection_status 0 7 ''traffic_control''] \<and>
         member_at (active_connections (manager w')) 7 1 \<and>
         member_at (role_connections (manager w')) ''traffic_control'' 1)"
proof -
  have a: "1 \<notin> refused init_world" and b: "1 \<notin> dead init_world"
    and c: "outbox init_world 1 = []" and d: "now init_world = 0"
    by (simp_all add: init_world_def)
  from connect_sends_connection_status [OF a, of 7 "''traffic_control''"] b
  obtain w' where "connect init_world 1 7 ''traffic_control'' = Inr w'"
    and "outbox w' 1 =
         outbox init_world 1 @ [connection_status (now init_world) 7 ''traffic_control'']"
    and "member_at (active_connections (manager w')) 7 1"
    and "member_at (role_connections (manager w')) ''traffic_control'' 1"
    by blast
  with a b c d show ?thesis by simp
qed

section \<open>Properties of the alert handlers\<close>

lemma find_update_first:
  "List.find P xs = Some a \<Longrightarrow> P (f a) \<Longrightarrow> List.find P (update_first P f xs) = Some (f a)"
  by (induction xs) (auto split: if_splits)

lemma db_send_personal_message [simp]: "db (send_personal_message w m ws) = db w"
  by (simp add: send_personal_message_def)

lemma db_send_each [simp]: "db (send_each w targets m) = db w"
  by (simp add: send_each_def Let_def)

lemma db_broadcast [simp]: "db (broadcast w m) = db w"
  by (simp add: broadcast_def)

lemma outbox_send_personal_message:
  "outbox (send_personal_message w m ws) x =
     (if x = ws \<and> ws \<notin> dead w then outbox w x @ [m] else outbox w x)"
  by (simp add: send_personal_message_def)

lemma handle_acknowledge_alert_found:
  assumes "ws_to_user (manager w) ws = Some u" and "u \<noteq> 0"
    and "find_alert (db w) (dict_get msg ''alert_id'' JNull) = Inr (Some a)"
    and "\<not> commit_fault (db w)"
  shows "handle_acknowledge_alert w ws msg =
     (send_personal_message
        (broadcast
           (w \<lparr> db := (db w)
                 \<lparr> alerts := update_first (\<lambda>x. JStr (alert_id x) = dict_get msg ''alert_id'' JNull)
                      (\<lambda>x. acknowledged_by x u (now w) (dict_get msg ''notes'' (JStr [])))
                      (alerts (db w)),
                   alert_actions := alert_actions (db w) @
                     [\<lparr> action_alert_id = alert_pk a, action_user_id = u,
                        action = ''acknowledge'',
                        action_notes = PJson (dict_get msg ''notes'' (JStr [])) \<rparr>] \<rparr> \<rparr>)
           (alert_acknowledged (dict_get msg ''alert_id'' JNull) u (now w)))
        (action_success ''acknowledge_alert'' (dict_get msg ''alert_id'' JNull)) ws, None)"
  using assms by (simp add: handle_acknowledge_alert_def Let_def)

lemma dispatch_acknowledge_alert:
  "dict_get msg ''type'' JNull = JStr ''acknowledge_alert'' \<Longrightarrow>
   dispatch w ws msg = handle_acknowledge_alert w ws msg"
  by (simp add: dispatch_def)

lemma handle_websocket_message_no_error:
  "snd (dispatch w ws msg) = None \<Longrightarrow> handle_websocket_message w ws msg = dispatch w ws msg"
  by (cases "dispatch w ws msg") (simp add: handle_websocket_message_def)

text \<open>
  Claim C3, as the code has it. \<open>_handle_acknowledge_alert\<close> never reads the alert's
  status: for a connection with a known, non-zero user id and an alert that the lookup
  finds, whatever its status, and when storage does not fail, the handler raises nothing,
  stores the alert as acknowledged by that user at the current time with the message's
  notes, appends one \<open>acknowledge\<close> action record, and sends the \<open>alert_acknowledged\<close>
  event to every connection of the by-user index whose transport works.
\<close>

theorem acknowledge_ignores_status:
  assumes "ws_to_user (manager w) ws = Some u" and "u \<noteq> 0"
    and "find_alert (db w) (dict_get msg ''alert_id'' JNull) = Inr (Some a)"
    and "\<not> commit_fault (db w)"
  shows "snd (handle_acknowledge_alert w ws msg) = None \<and>
     find_alert (db (fst (handle_acknowledge_alert w ws msg))) (dict_get msg ''alert_id'' JNull) =
       Inr (Some (a \<lparr> status := ACKNOWLEDGED, acknowledged_by_id := Some u,
                      acknowledged_at := Some (now w),
                      acknowledged_notes := Some (dict_get msg ''notes'' (JStr [])) \<rparr>)) \<and>
     alert_actions (db (fst (handle_acknowledge_alert w ws msg))) =
       alert_actions (db w) @
         [\<lparr> action_alert_id = alert_pk a, action_user_id = u, action = ''acknowledge'',
            action_notes = PJson (dict_get msg ''notes'' (JStr [])) \<rparr>] \<and>
     (\<forall>x. x \<in> all_websockets (manager w) \<and> x \<notin> dead w \<longrightarrow>
          alert_acknowledged (dict_get msg ''alert_id'' JNull) u (now w)
            \<in> set (outbox (fst (handle_acknowledge_alert w ws msg)) x))"
proof -
  let ?key = "dict_get msg ''alert_id'' JNull"
  let ?P = "\<lambda>x. JStr (alert_id x) = ?key"
  from assms(3) have q: "\<not> query_fault (db w) ?key" and f: "List.find ?P (alerts (db w)) = Some a"
    by (auto simp: find_alert_def split: if_splits)
  from f have Pa: "?P a" by (auto simp: find_Some_iff)
  have f': "List.find ?P (update_first ?P
      (\<lambda>x. acknowledged_by x u (now w) (dict_get msg ''notes'' (JStr []))) (alerts (db w))) =
      Some (acknowledged_by a u (now w) (dict_get msg ''notes'' (JStr [])))"
    using f Pa by (intro find_update_first) (simp_all add: acknowledged_by_def)
  show ?thesis
    unfolding handle_acknowledge_alert_found [OF assms]
    using q f'
    by (simp add: find_alert_def acknowledged_by_def outbox_send_personal_message
        broadcast_def outbox_send_each)
qed


text \<open>
  The claim as stated fails: acknowledging through the dispatcher an alert that is already
  resolved moves it to \<open>ACKNOWLEDGED\<close>, records the action and broadcasts
  \<open>alert_acknowledged\<close>.
\<close>

theorem acknowledge_changes_resolved_alert:
  "status (hd (alerts (db alert_service))) = RESOLVED \<and>
   map status (alerts (db (fst (handle_websocket_message alert_service 1
       [(''type'', JStr ''acknowledge_alert''), (''alert_id'', JStr ''A1'')])))) = [ACKNOWLEDGED] \<and>
   map acknowledged_by_id (alerts (db (fst (handle_websocket_message alert_service 1
       [(''type'', JStr ''acknowledge_alert''), (''alert_id'', JStr ''A1'')])))) = [Some 7] \<and>
   map action (alert_actions (db (fst (handle_websocket_message alert_service 1
       [(''type'', JStr ''acknowledge_alert''), (''alert_id'', JStr ''A1'')])))) = [''acknowledge''] \<and>
   outbox (fst (handle_websocket_message alert_service 1
       [(''type'', JStr ''acknowledge_alert''), (''alert_id'', JStr ''A1'')])) 1 =
     [alert_acknowledged (JStr ''A1'') 7 60, action_success ''acknowledge_alert'' (JStr ''A1'')]"
proof -
  let ?msg = "[(''type'', JStr ''acknowledge_alert''), (''alert_id'', JStr ''A1'')]"
  have d: "dead alert_service = {}" and o: "outbox alert_service = (\<lambda>ws. [])"
    and n: "now alert_service = 60"
    and b: "db alert_service = init_database \<lparr> alerts := [resolved_alert] \<rparr>"
    by (simp_all add: alert_service_def init_service_def)
  have u: "ws_to_user (manager alert_service) 1 = Some 7"
    by (simp add: alert_service_def connect_indexes_def)
  have "active_connections (manager alert_service) = [7 \<mapsto> {1}]"
    by (simp add: alert_service_def connect_indexes_def init_manager_def add_to_index_def)
  then have all: "all_websockets (manager alert_service) = {1}"
    by (simp add: all_websockets_def)
  have k: "dict_get ?msg ''alert_id'' JNull = JStr ''A1''"
    and nn: "dict_get ?msg ''notes'' (JStr []) = JStr []"
    and t: "dict_get ?msg ''type'' JNull = JStr ''acknowledge_alert''"
    by (simp_all add: dict_get_def)
  have f: "find_alert (db alert_service) (dict_get ?msg ''alert_id'' JNull) = Inr (Some resolved_alert)"
    by (simp add: k b find_alert_def init_database_def resolved_alert_def)
  have c: "\<not> commit_fault (db alert_service)"
    by (simp add: b init_database_def)
  have z: "(7::int) \<noteq> 0" by simp
  note r = handle_acknowledge_alert_found [OF u z f c]
  have dsp: "dispatch alert_service 1 ?msg = handle_acknowledge_alert alert_service 1 ?msg"
    by (rule dispatch_acknowledge_alert) (rule t)
  have "snd (handle_acknowledge_alert alert_service 1 ?msg) = None"
    unfolding r by simp
  then have "snd (dispatch alert_service 1 ?msg) = None"
    unfolding dsp .
  from handle_websocket_message_no_error [OF this]
  have h: "handle_websocket_message alert_service 1 ?msg = handle_acknowledge_alert alert_service 1 ?msg"
    unfolding dsp .
  have s0: "status (hd (alerts (db alert_service))) = RESOLVED"
    by (simp add: b resolved_alert_def)
  show ?thesis
    unfolding h r using d o n all s0
    by (simp add: k nn b init_database_def resolved_alert_def acknowledged_by_def
        outbox_send_personal_message broadcast_def outbox_send_each send_each_def)
qed

theorem acknowledge_ignores_status_witness:
  "ws_to_user (manager alert_service) 1 = Some 7 \<and> (7::int) \<noteq> 0 \<and>
   find_alert (db alert_service) (JStr ''A1'') = Inr (Some resolved_alert) \<and>
   \<not> commit_fault (db alert_service) \<and>
   status resolved_alert = RESOLVED \<and>
   find_alert (db (fst (handle_acknowledge_alert alert_service 1 [(''alert_id'', JStr ''A1'')])))
       (JStr ''A1'') =
     Inr (Some (resolved_alert \<lparr> status := ACKNOWLEDGED, acknowledged_by_id := Some 7,
                                  acknowledged_at := Some 60,
                                  acknowledged_notes := Some (JStr []) \<rparr>))"
proof -
  have u: "ws_to_user (manager alert_service) 1 = Some 7"
    by (simp add: alert_service_def connect_indexes_def)
  have k: "dict_get [(''alert_id'', JStr ''A1'')] ''alert_id'' JNull = JStr ''A1''"
    and nn: "dict_get [(''alert_id'', JStr ''A1'')] ''notes'' (JStr []) = JStr []"
    by (simp_all add: dict_get_def)
  have f: "find_alert (db alert_service) (dict_get [(''alert_id'', JStr ''A1'')] ''alert_id'' JNull) =
           Inr (Some resolved_alert)"
    by (simp add: k alert_service_def find_alert_def init_database_def resolved_alert_def)
  have c: "\<not> commit_fault (db alert_service)"
    by (simp add: alert_service_def init_database_def)
  have n: "now alert_service = 60" by (simp add: alert_service_def)
  have z: "(7::int) \<noteq> 0" by simp
  from acknowledge_ignores_status [OF u z f c] u f c show ?thesis
    by (simp add: k nn n resolved_alert_def)
qed

section \<open>Properties of the analytics request\<close>

lemma start_time_of_raises: "start_time_of t time_range = Inl NameError"
  by (simp add: start_time_of_def timedelta_def)

lemma send_analytics_raises:
  "send_analytics w ws (JObj d) = (w, Some NameError)"
  by (simp add: send_analytics_def start_time_of_raises)

lemma send_analytics_never_answers: "snd (send_analytics w ws parameters) \<noteq> None"
  by (cases parameters) (simp_all add: send_analytics_def start_time_of_raises)

lemma append_value_nonempty:
  "\<forall>b \<in> set series. snd b \<noteq> [] \<Longrightarrow> \<forall>b \<in> set (append_value series k v). snd b \<noteq> []"
  by (induction series k v rule: append_value.induct) auto

lemma group_by_hour_nonempty:
  "\<forall>b \<in> set series. snd b \<noteq> [] \<Longrightarrow> \<forall>b \<in> set (group_by_hour series ms). snd b \<noteq> []"
  by (induction series ms rule: group_by_hour.induct) (simp_all add: append_value_nonempty)

lemma time_series_example:
  "time_series example_metrics =
     [PDict [(''timestamp'', PHour 10), (''avg'', PFloat 2), (''min'', PFloat 1),
             (''max'', PFloat 3), (''count'', PInt 2)],
      PDict [(''timestamp'', PHour 11), (''avg'', PFloat 5), (''min'', PFloat 5),
             (''max'', PFloat 5), (''count'', PInt 1)]]"
  by (simp add: time_series_def example_metrics_def bucket_row_def)

text \<open>
  Claim C4, at the input where the code departs from it. The grouping, the statistics and
  the sorting of lines 476--500 would give the two buckets of the specification's example
  (\<open>time_series_example\<close>), but no request reaches them: \<open>_send_analytics\<close> raises
  \<open>NameError\<close> at the first use of \<open>timedelta\<close>, for every \<open>time_range\<close>, and the
  dispatcher answers with the \<open>Internal server error\<close> message instead of an
  \<open>analytics_response\<close>.
\<close>

theorem analytics_request_raises_name_error:
  "send_analytics analytics_service 1 (JObj [(''time_range'', JStr ''24h'')]) =
     (analytics_service, Some NameError) \<and>
   handle_websocket_message analytics_service 1
     [(''type'', JStr ''request_data''), (''data_type'', JStr ''analytics''),
      (''parameters'', JObj [(''time_range'', JStr ''24h'')])] =
     (analytics_service \<lparr> outbox := (outbox analytics_service)(1 := [internal_error]) \<rparr>, None)"
proof -
  have d: "1 \<notin> dead analytics_service" and o: "outbox analytics_service 1 = []"
    by (simp_all add: analytics_service_def init_service_def)
  then show ?thesis
    by (simp add: handle_websocket_message_def dispatch_def dict_get_def
        handle_data_request_def send_analytics_raises send_personal_message_def)
qed

section \<open>Properties of the dispatcher\<close>
































end
